theory Spec2Isabelle
  imports Main "HOL-Library.Char_ord" "HOL-Library.List_Lexorder"
begin

section \<open>The store\<close>

text \<open>
  The handlers of \<^verbatim>\<open>app.py\<close> work on three tables of one SQLite file: \<^verbatim>\<open>feeders\<close>,
  \<^verbatim>\<open>logs\<close> and \<^verbatim>\<open>daily_stats\<close>. Text is modelled as \<open>string\<close> (ASCII), SQL integers
  and Python integers as \<open>int\<close>, a nullable column as an \<open>option\<close>, and a table as the
  list of its rows in rowid order.

  A timestamp is the text that \<^verbatim>\<open>datetime.now().strftime('%Y-%m-%d %H:%M:%S')\<close> produces:
  local wall-clock time, cut to whole seconds. A date is the text of
  \<^verbatim>\<open>date.today().isoformat()\<close>. On text of this fixed layout the order of the strings is
  the order of the instants. Every clock reading of a handler is an argument of its model.
\<close>

type_synonym timestamp = string
type_synonym date = string

text \<open>
  The only declaration of \<^verbatim>\<open>feeders\<close> is the one in \<^verbatim>\<open>setup_database.py\<close>.
  \<^verbatim>\<open>current_weight_g\<close> is a REAL column that no handler computes with; it is carried as
  an integer.
\<close>

record feeder =
  feeder_id :: int
  feeder_name :: string
  esp32_ip :: string
  esp32_port :: int
  esp_cam_ip :: "string option"
  esp_cam_port :: int
  location :: string
  max_capacity_g :: int
  current_weight_g :: int
  is_active :: bool
  is_online :: bool
  last_online :: "timestamp option"
  last_offline :: "timestamp option"
  wifi_strength :: int
  created_at :: "timestamp option"
  updated_at :: "timestamp option"

text \<open>
  \<^verbatim>\<open>logs\<close> and \<^verbatim>\<open>daily_stats\<close> are declared twice, by \<^verbatim>\<open>init_db\<close> in \<^verbatim>\<open>app.py\<close> and by
  \<^verbatim>\<open>create_database\<close> in \<^verbatim>\<open>setup_database.py\<close>, both with
  \<^verbatim>\<open>CREATE TABLE IF NOT EXISTS\<close>: the declaration that ran first on a file stays. The two
  differ where the handlers can see it:
  \<^item> \<^verbatim>\<open>logs\<close> has the column \<^verbatim>\<open>feed_type\<close> only as \<^verbatim>\<open>init_db\<close> declares it, and
    \<^verbatim>\<open>weight\<close> has the default 0 only as \<^verbatim>\<open>create_database\<close> declares it;
  \<^item> \<^verbatim>\<open>daily_stats\<close> is keyed by \<^verbatim>\<open>date\<close> alone (\<^verbatim>\<open>date TEXT PRIMARY KEY\<close>) as \<^verbatim>\<open>init_db\<close>
    declares it, and has a \<^verbatim>\<open>feeder_id\<close> column (default 1) with
    \<^verbatim>\<open>UNIQUE(feeder_id, date)\<close> as \<^verbatim>\<open>create_database\<close> declares it.
  So the store records, per table, which declaration it has. A statement that names a
  column its table does not have raises \<^verbatim>\<open>sqlite3.OperationalError\<close>.

  The scripts produce two kinds of file. \<^verbatim>\<open>setup_database.py\<close> removes the file and
  creates every table, \<^verbatim>\<open>feeders\<close> included; \<^verbatim>\<open>init_db\<close> then changes nothing. On a
  new file \<^verbatim>\<open>init_db\<close> alone creates \<^verbatim>\<open>logs\<close> and \<^verbatim>\<open>daily_stats\<close> and there is no
  \<^verbatim>\<open>feeders\<close> table: \<open>feeders_table\<close> tells whether the table exists, and a statement on
  a table that does not exist raises \<^verbatim>\<open>sqlite3.OperationalError\<close> as well.
\<close>

datatype decl = InitDb | SetupDatabase

record log =
  log_id :: int
  log_feeder_id :: int
  timestamp :: timestamp
  source :: string
  weight :: "int option"
  amount :: int
  event_type :: string
  image_path :: "string option"
  feed_type :: "string option"
  feeding_id :: "string option"

datatype stats_table =
    ByDate "(date \<times> int) list"
  | ByFeederDate "(int \<times> date \<times> int) list"

text \<open>
  \<^verbatim>\<open>feeders_seq\<close> and \<^verbatim>\<open>logs_seq\<close> are the AUTOINCREMENT counters of the two tables (the
  largest id ever given out); a new row gets the counter plus one.
\<close>

record db =
  feeders_table :: bool
  feeders :: "feeder list"
  feeders_seq :: int
  logs :: "log list"
  logs_seq :: int
  logs_decl :: decl
  daily_stats :: stats_table

section \<open>Feeder registry: the online state\<close>

text \<open>
  \<^verbatim>\<open>update_feeder_status(feeder_id, is_online)\<close>: one UPDATE on the rows with that id. The
  two \<^verbatim>\<open>datetime.now()\<close> readings of the parameter tuple are \<open>t\<close> (the stamp) and \<open>t'\<close>
  (\<^verbatim>\<open>updated_at\<close>). The function catches every exception and returns nothing. Its
  two callers run it after a SELECT on \<^verbatim>\<open>feeders\<close> has succeeded, so the table exists
  whenever it runs.
\<close>

definition stamp_status :: "bool \<Rightarrow> timestamp \<Rightarrow> timestamp \<Rightarrow> feeder \<Rightarrow> feeder" where
  "stamp_status online t t' f =
     (if online then f\<lparr>is_online := True, last_online := Some t, updated_at := Some t'\<rparr>
      else f\<lparr>is_online := False, last_offline := Some t, updated_at := Some t'\<rparr>)"

definition update_feeder_status :: "int \<Rightarrow> bool \<Rightarrow> timestamp \<Rightarrow> timestamp \<Rightarrow> db \<Rightarrow> db" where
  "update_feeder_status fid online t t' d =
     d\<lparr>feeders := map (\<lambda>f. if feeder_id f = fid then stamp_status online t t' f else f)
                      (feeders d)\<rparr>"

section \<open>Outbound device calls\<close>

text \<open>
  The two requests the modelled handlers send to a feeder, with their timeout in seconds:
  \<^verbatim>\<open>requests.get(f"http://{ip}:{port}/get_status", timeout=timeout)\<close> and
  \<^verbatim>\<open>requests.post(f"http://{ip}:{port}/trigger_dispensing", data=f"amount={amount}", timeout=5)\<close>.
  The network is a function from the request to its outcome during one handler run: a
  response with its status code, or a \<^verbatim>\<open>requests.exceptions.RequestException\<close>
  (timeout, refused connection). Every handler returns the list of the requests it sent,
  in the order it sent them.
\<close>

datatype http_call =
    GET_status string int nat
  | POST_dispense string int int nat

datatype http_result = Status nat | RequestException

type_synonym net = "http_call \<Rightarrow> http_result"

definition check_feeder_online :: "net \<Rightarrow> string \<Rightarrow> int \<Rightarrow> nat \<Rightarrow> bool" where
  "check_feeder_online n ip port timeout =
     (case n (GET_status ip port timeout) of
        Status c \<Rightarrow> c = 200
      | RequestException \<Rightarrow> False)"


section \<open>Responses\<close>

text \<open>
  A response is the HTTP status code and the body. \<open>Exception_text e\<close> is the body
  \<^verbatim>\<open>{'error': str(e)}\<close> of a catch-all \<^verbatim>\<open>except Exception as e\<close> handler.
\<close>

datatype exn = ValueError | OverflowError | OperationalError | Bad_status nat

datatype body =
    Text string
  | Error string
  | Exception_text exn
  | Unreachable string
  | Feeder_added int
  | Feeder_deleted string
  | Feeding_triggered int int
  | Feeder_list "(feeder \<times> bool) list"
  | Daily_stats int int

type_synonym response = "nat \<times> body"

section \<open>Feeder registry: listing\<close>

text \<open>
  The loop of \<^verbatim>\<open>get_feeders\<close> over the rows it has fetched. \<open>clock fid\<close> is the pair of
  clock readings of the status update of feeder \<open>fid\<close>. The dictionary the loop appends
  copies every field from the fetched row except \<^verbatim>\<open>is_online\<close>, which is the probe's
  verdict: it is modelled as the pair of the row and the verdict.
\<close>

fun feeders_loop ::
  "net \<Rightarrow> (int \<Rightarrow> timestamp \<times> timestamp) \<Rightarrow> feeder list \<Rightarrow> db
     \<Rightarrow> (feeder \<times> bool) list \<times> http_call list \<times> db" where
  "feeders_loop n clock [] d = ([], [], d)"
| "feeders_loop n clock (f # fs) d =
     (let online = check_feeder_online n (esp32_ip f) (esp32_port f) 2;
          d' = (if online \<noteq> is_online f
                then update_feeder_status (feeder_id f) online
                       (fst (clock (feeder_id f))) (snd (clock (feeder_id f))) d
                else d)
      in case feeders_loop n clock fs d' of
           (rs, cs, d'') \<Rightarrow>
             ((f, online) # rs, GET_status (esp32_ip f) (esp32_port f) 2 # cs, d''))"

definition get_feeders ::
  "net \<Rightarrow> (int \<Rightarrow> timestamp \<times> timestamp) \<Rightarrow> db \<Rightarrow> response \<times> http_call list \<times> db" where
  "get_feeders n clock d =
     (if \<not> feeders_table d then ((500, Feeder_list []), [], d)
      else
        (case feeders_loop n clock (sort_key feeder_id (filter is_active (feeders d))) d of
           (rs, cs, d') \<Rightarrow> ((200, Feeder_list rs), cs, d')))"

text \<open>
  The verdict of the probe that the loop runs on a row:
  \<^verbatim>\<open>check_feeder_online(feeder[2], feeder[3])\<close>, with the default timeout of 2 seconds.
\<close>

definition probe :: "net \<Rightarrow> feeder \<Rightarrow> bool" where
  "probe n f = check_feeder_online n (esp32_ip f) (esp32_port f) 2"

section \<open>Feeder registry: registration and soft delete\<close>

text \<open>Python's \<^verbatim>\<open>str.split(sep)\<close> for a one-character separator.\<close>

fun split_on :: "char \<Rightarrow> string \<Rightarrow> string list" where
  "split_on c [] = [[]]"
| "split_on c (x # xs) =
     (if x = c then [] # split_on c xs
      else (case split_on c xs of
              [] \<Rightarrow> [[x]]
            | p # ps \<Rightarrow> (x # p) # ps))"

definition is_digit :: "char \<Rightarrow> bool" where
  "is_digit c \<longleftrightarrow> CHR ''0'' \<le> c \<and> c \<le> CHR ''9''"

definition digit_val :: "char \<Rightarrow> nat" where
  "digit_val c = of_char c - 48"

text \<open>\<^verbatim>\<open>str.isdigit()\<close> on ASCII text, and \<^verbatim>\<open>int(s)\<close> on a string of digits.\<close>

definition isdigit :: "string \<Rightarrow> bool" where
  "isdigit s \<longleftrightarrow> s \<noteq> [] \<and> list_all is_digit s"

definition digits_val :: "string \<Rightarrow> nat" where
  "digits_val s = foldl (\<lambda>a c. 10 * a + digit_val c) 0 s"

text \<open>
  \<^verbatim>\<open>int(s)\<close> on ASCII text: surrounding whitespace is dropped, one sign is allowed, and
  the digits may be grouped by single underscores. \<open>None\<close> is \<^verbatim>\<open>ValueError\<close>.
\<close>

definition is_space :: "char \<Rightarrow> bool" where
  "is_space c \<longleftrightarrow>
     c = CHR '' '' \<or> (CHR 0x09 \<le> c \<and> c \<le> CHR 0x0D) \<or> (CHR 0x1C \<le> c \<and> c \<le> CHR 0x1F)"

definition strip :: "string \<Rightarrow> string" where
  "strip s = rev (dropWhile is_space (rev (dropWhile is_space s)))"

fun grouped_digits :: "nat \<Rightarrow> string \<Rightarrow> nat option" where
  "grouped_digits a [] = Some a"
| "grouped_digits a [c] = (if is_digit c then Some (10 * a + digit_val c) else None)"
| "grouped_digits a (c # e # cs) =
     (if is_digit c then grouped_digits (10 * a + digit_val c) (e # cs)
      else if c = CHR ''_'' \<and> is_digit e then grouped_digits (10 * a + digit_val e) cs
      else None)"

definition unsigned_int :: "string \<Rightarrow> nat option" where
  "unsigned_int s =
     (case s of
        [] \<Rightarrow> None
      | c # cs \<Rightarrow> if is_digit c then grouped_digits (digit_val c) cs else None)"

definition py_int :: "string \<Rightarrow> int option" where
  "py_int s =
     (case strip s of
        [] \<Rightarrow> None
      | c # cs \<Rightarrow>
          if c = CHR ''-'' then map_option (\<lambda>n. - int n) (unsigned_int cs)
          else if c = CHR ''+'' then map_option int (unsigned_int cs)
          else map_option int (unsigned_int (c # cs)))"

text \<open>
  The first lines of \<^verbatim>\<open>add_feeder\<close>: \<^verbatim>\<open>ip, port = ip_address.split(':')\<close> raises
  \<^verbatim>\<open>ValueError\<close> unless there are exactly two parts, and so does \<^verbatim>\<open>int(port)\<close> on text
  that is not an integer.
\<close>

definition parse_address :: "string \<Rightarrow> exn + string \<times> int" where
  "parse_address a =
     (if CHR '':'' \<in> set a then
        (case split_on CHR '':'' a of
           [ip, port] \<Rightarrow> (case py_int port of None \<Rightarrow> Inl ValueError | Some p \<Rightarrow> Inr (ip, p))
         | _ \<Rightarrow> Inl ValueError)
      else Inr (a, 80))"

definition valid_part :: "string \<Rightarrow> bool" where
  "valid_part p \<longleftrightarrow> isdigit p \<and> digits_val p \<le> 255"

definition valid_ip :: "string \<Rightarrow> bool" where
  "valid_ip ip \<longleftrightarrow> length (split_on CHR ''.'' ip) = 4 \<and> list_all valid_part (split_on CHR ''.'' ip)"

text \<open>
  The JSON body of the request, with the fields \<^verbatim>\<open>add_feeder\<close> reads. A string field that
  is absent or empty is falsy. SQLite stores a 64-bit integer: binding a larger Python
  integer raises \<^verbatim>\<open>OverflowError\<close>.
\<close>

record add_request =
  req_name :: "string option"
  req_ip_address :: "string option"
  req_location :: "string option"
  req_max_capacity_g :: "int option"

definition falsy :: "string option \<Rightarrow> bool" where
  "falsy v \<longleftrightarrow> v = None \<or> v = Some []"

definition fits_sqlite :: "int \<Rightarrow> bool" where
  "fits_sqlite i \<longleftrightarrow> - (2 ^ 63) \<le> i \<and> i < 2 ^ 63"

definition new_feeder ::
  "int \<Rightarrow> string \<Rightarrow> string \<Rightarrow> int \<Rightarrow> string \<Rightarrow> int \<Rightarrow> timestamp \<Rightarrow> timestamp \<Rightarrow> feeder" where
  "new_feeder fid name ip port loc cap now utc_now =
     \<lparr>feeder_id = fid, feeder_name = name, esp32_ip = ip, esp32_port = port,
      esp_cam_ip = None, esp_cam_port = 80, location = loc, max_capacity_g = cap,
      current_weight_g = 0, is_active = True, is_online = False,
      last_online = Some utc_now, last_offline = None, wifi_strength = 0,
      created_at = Some now, updated_at = Some utc_now\<rparr>"

text \<open>
  \<^verbatim>\<open>add_feeder\<close>. \<open>now\<close> is the \<^verbatim>\<open>datetime.now()\<close> reading for \<^verbatim>\<open>created_at\<close>; \<open>utc_now\<close> is
  SQLite's \<^verbatim>\<open>CURRENT_TIMESTAMP\<close>, the default of the columns \<^verbatim>\<open>last_online\<close> and
  \<^verbatim>\<open>updated_at\<close> that the INSERT leaves out.
\<close>

definition add_feeder :: "add_request \<Rightarrow> timestamp \<Rightarrow> timestamp \<Rightarrow> db \<Rightarrow> response \<times> db" where
  "add_feeder r now utc_now d =
     (if falsy (req_name r) \<or> falsy (req_ip_address r) then
        ((400, Error ''Missing required fields''), d)
      else
        (case parse_address (the (req_ip_address r)) of
           Inl e \<Rightarrow> ((500, Exception_text e), d)
         | Inr (ip, port) \<Rightarrow>
             if \<not> valid_ip ip then ((400, Error ''Invalid IP address format''), d)
             else if \<not> feeders_table d then ((500, Exception_text OperationalError), d)
             else if find (\<lambda>f. esp32_ip f = ip \<and> is_active f) (feeders d) \<noteq> None then
               ((400, Error ''A feeder with this IP already exists''), d)
             else
               (let cap = (case req_max_capacity_g r of None \<Rightarrow> 5000 | Some c \<Rightarrow> c);
                    loc = (case req_location r of None \<Rightarrow> ''Main Area'' | Some l \<Rightarrow> l);
                    fid = feeders_seq d + 1
                in if fits_sqlite port \<and> fits_sqlite cap then
                     ((200, Feeder_added fid),
                      d\<lparr>feeders := feeders d @
                           [new_feeder fid (the (req_name r)) ip port loc cap now utc_now],
                        feeders_seq := fid\<rparr>)
                   else ((500, Exception_text OverflowError), d))))"

text \<open>\<^verbatim>\<open>delete_feeder\<close>: the soft delete. \<open>now\<close> is its clock reading.\<close>

definition delete_feeder :: "int \<Rightarrow> timestamp \<Rightarrow> db \<Rightarrow> response \<times> db" where
  "delete_feeder fid now d =
     (if \<not> feeders_table d then ((500, Exception_text OperationalError), d)
      else
        (case find (\<lambda>f. feeder_id f = fid) (feeders d) of
           None \<Rightarrow> ((404, Error ''Feeder not found''), d)
         | Some f \<Rightarrow>
             ((200, Feeder_deleted (feeder_name f)),
              d\<lparr>feeders := map (\<lambda>g. if feeder_id g = fid
                                     then g\<lparr>is_active := False, updated_at := Some now\<rparr>
                                     else g)
                               (feeders d)\<rparr>)))"

section \<open>Feeding event recorder\<close>

definition countable_events :: "string list" where
  "countable_events = [''MANUAL_FEED'', ''SCHEDULED_FEED'', ''BUTTON_FEED'']"

text \<open>
  The two upserts on \<^verbatim>\<open>daily_stats\<close>. \<^verbatim>\<open>INSERT OR REPLACE\<close> deletes the row that conflicts on
  the table's key and appends the new row. A scalar subquery yields the first matching
  row, and \<^verbatim>\<open>COALESCE(..., 0)\<close> makes no row count as 0.

  \<open>bump_date\<close> is the statement of \<^verbatim>\<open>log_data\<close>, which names \<^verbatim>\<open>date\<close> and
  \<^verbatim>\<open>total_feedings\<close> only: on the table keyed by feeder and date the new row gets the
  default feeder 1, while the subquery still reads by date alone.
\<close>

definition first_for_date :: "date \<Rightarrow> stats_table \<Rightarrow> int option" where
  "first_for_date day t =
     (case t of
        ByDate rows \<Rightarrow> map_of rows day
      | ByFeederDate rows \<Rightarrow> map_option (\<lambda>r. snd (snd r)) (find (\<lambda>r. fst (snd r) = day) rows))"

definition bump_date :: "date \<Rightarrow> stats_table \<Rightarrow> stats_table" where
  "bump_date day t =
     (let n = (case first_for_date day t of None \<Rightarrow> 0 | Some c \<Rightarrow> c) + 1
      in case t of
           ByDate rows \<Rightarrow> ByDate (filter (\<lambda>r. fst r \<noteq> day) rows @ [(day, n)])
         | ByFeederDate rows \<Rightarrow>
             ByFeederDate (filter (\<lambda>r. \<not> (fst r = 1 \<and> fst (snd r) = day)) rows @ [(1, day, n)]))"

text \<open>
  \<open>bump_feeder_date\<close> is the statement of \<^verbatim>\<open>trigger_feeding_by_feeder\<close>, which names the
  column \<^verbatim>\<open>feeder_id\<close>: on the table keyed by date alone it raises.
\<close>

definition bump_feeder_date :: "int \<Rightarrow> date \<Rightarrow> stats_table \<Rightarrow> exn + stats_table" where
  "bump_feeder_date fid day t =
     (case t of
        ByDate rows \<Rightarrow> Inl OperationalError
      | ByFeederDate rows \<Rightarrow>
          (let n = (case find (\<lambda>r. fst r = fid \<and> fst (snd r) = day) rows of
                      None \<Rightarrow> 0 | Some r \<Rightarrow> snd (snd r)) + 1
           in Inr (ByFeederDate
                 (filter (\<lambda>r. \<not> (fst r = fid \<and> fst (snd r) = day)) rows @ [(fid, day, n)]))))"

text \<open>
  \<^verbatim>\<open>log_data\<close>. The form fields are optional and get the handler's defaults; \<open>now\<close> is the
  \<^verbatim>\<open>datetime.now()\<close> reading and \<open>today\<close> the \<^verbatim>\<open>date.today()\<close> reading. Both statements run
  in one transaction; an exception rolls it back and the handler answers 500.
\<close>

record log_form =
  form_weight :: "int option"
  form_source :: "string option"
  form_amount :: "int option"
  form_event :: "string option"
  form_feed_type :: "string option"
  form_feeding_id :: "string option"

definition event_of :: "log_form \<Rightarrow> string" where
  "event_of form = (case form_event form of None \<Rightarrow> ''UNKNOWN'' | Some e \<Rightarrow> e)"

definition log_data :: "log_form \<Rightarrow> timestamp \<Rightarrow> date \<Rightarrow> db \<Rightarrow> response \<times> db" where
  "log_data form now today d =
     (let ev = event_of form
      in if logs_decl d = SetupDatabase then ((500, Text ''Error logging data''), d)
         else
           (let row = \<lparr>log_id = logs_seq d + 1, log_feeder_id = 1, timestamp = now,
                       source = (case form_source form of None \<Rightarrow> ''ESP32'' | Some s \<Rightarrow> s),
                       weight = form_weight form,
                       amount = (case form_amount form of None \<Rightarrow> 0 | Some a \<Rightarrow> a),
                       event_type = ev, image_path = None,
                       feed_type =
                         Some (case form_feed_type form of None \<Rightarrow> ''Manual'' | Some s \<Rightarrow> s),
                       feeding_id =
                         Some (case form_feeding_id form of None \<Rightarrow> [] | Some s \<Rightarrow> s)\<rparr>;
                d' = d\<lparr>logs := logs d @ [row], logs_seq := logs_seq d + 1\<rparr>
            in ((200, Text ''Logged''),
                if ev \<in> set countable_events
                then d'\<lparr>daily_stats := bump_date today (daily_stats d')\<rparr> else d')))"

text \<open>
  \<^verbatim>\<open>trigger_feeding_by_feeder\<close>. \<open>amount_field\<close> is the optional form field (default 50),
  for a request whose field is an integer literal: the handler passes the text on as it
  is, and the column \<^verbatim>\<open>amount INTEGER\<close> stores such text as that integer;
  \<open>now\<close> and \<open>today\<close> are the clock readings of the success branch, \<open>t\<close> and \<open>t'\<close> those of
  the status update. A response that is not 200 raises a plain \<^verbatim>\<open>Exception\<close>, which the
  \<^verbatim>\<open>except requests.exceptions.RequestException\<close> clause does not catch: it reaches the
  outer \<^verbatim>\<open>except Exception\<close> and the handler answers 500.
\<close>

definition manual_feed_row :: "int \<Rightarrow> decl \<Rightarrow> int \<Rightarrow> timestamp \<Rightarrow> string \<Rightarrow> int \<Rightarrow> log" where
  "manual_feed_row lid dc fid now name amt =
     \<lparr>log_id = lid, log_feeder_id = fid, timestamp = now,
      source = ''Manual - '' @ name,
      weight = (case dc of InitDb \<Rightarrow> None | SetupDatabase \<Rightarrow> Some 0),
      amount = amt, event_type = ''MANUAL_FEED'', image_path = None,
      feed_type = None, feeding_id = None\<rparr>"

definition trigger_feeding_by_feeder ::
  "net \<Rightarrow> int \<Rightarrow> int option \<Rightarrow> timestamp \<Rightarrow> date \<Rightarrow> timestamp \<Rightarrow> timestamp \<Rightarrow> db
     \<Rightarrow> response \<times> http_call list \<times> db" where
  "trigger_feeding_by_feeder n fid amount_field now today t t' d =
     (if \<not> feeders_table d then ((500, Exception_text OperationalError), [], d) else
      case find (\<lambda>f. feeder_id f = fid \<and> is_active f) (feeders d) of
        None \<Rightarrow> ((404, Error ''Feeder not found or inactive''), [], d)
      | Some f \<Rightarrow>
          (let amt = (case amount_field of None \<Rightarrow> 50 | Some a \<Rightarrow> a);
               call = POST_dispense (esp32_ip f) (esp32_port f) amt 5
           in case n call of
                RequestException \<Rightarrow>
                  ((503, Unreachable (feeder_name f)), [call],
                   update_feeder_status fid False t t' d)
              | Status c \<Rightarrow>
                  if c = 200 then
                    (case bump_feeder_date fid today (daily_stats d) of
                       Inl e \<Rightarrow> ((500, Exception_text e), [call], d)
                     | Inr st \<Rightarrow>
                         ((200, Feeding_triggered fid amt), [call],
                          d\<lparr>logs := logs d @
                               [manual_feed_row (logs_seq d + 1) (logs_decl d) fid now
                                  (feeder_name f) amt],
                            logs_seq := logs_seq d + 1,
                            daily_stats := st\<rparr>))
                  else ((500, Exception_text (Bad_status c)), [call], d)))"

text \<open>
  \<^verbatim>\<open>get_daily_stats\<close>. \<open>today\<close> is the \<^verbatim>\<open>date.today()\<close> reading (local date) and
  \<open>utc_today\<close> is SQLite's \<^verbatim>\<open>DATE('now')\<close>, the date in UTC. \<^verbatim>\<open>DATE(timestamp)\<close> of a
  timestamp in the layout above is its first ten characters.
\<close>

definition sql_DATE :: "timestamp \<Rightarrow> date" where
  "sql_DATE ts = take 10 ts"

definition total_dispensed :: "date \<Rightarrow> log list \<Rightarrow> int" where
  "total_dispensed day ls =
     sum_list (map amount
       (filter (\<lambda>l. sql_DATE (timestamp l) = day \<and> event_type l \<in> set countable_events) ls))"

definition get_daily_stats :: "date \<Rightarrow> date \<Rightarrow> db \<Rightarrow> response" where
  "get_daily_stats today utc_today d =
     (200, Daily_stats
        (case first_for_date today (daily_stats d) of None \<Rightarrow> 0 | Some c \<Rightarrow> c)
        (total_dispensed utc_today (logs d)))"

text \<open>\<^verbatim>\<open>delete_log\<close> and \<^verbatim>\<open>delete_all_logs\<close>: one DELETE each on \<^verbatim>\<open>logs\<close>.\<close>

definition delete_log :: "int \<Rightarrow> db \<Rightarrow> response \<times> db" where
  "delete_log lid d = ((200, Text ''Log deleted''), d\<lparr>logs := filter (\<lambda>l. log_id l \<noteq> lid) (logs d)\<rparr>)"

definition delete_all_logs :: "db \<Rightarrow> response \<times> db" where
  "delete_all_logs d = ((200, Text ''All logs deleted''), d\<lparr>logs := []\<rparr>)"

text \<open>
  \<^verbatim>\<open>upload_photo\<close>. \<open>hdr_feeding_id\<close> and \<open>hdr_capture_type\<close> are the two optional request
  headers, \<open>stamp\<close> is the \<^verbatim>\<open>strftime('%Y%m%d_%H%M%S')\<close> reading used for the file name when
  there is no feeding id, and \<open>written\<close> tells whether writing the image file succeeded
  (when it raises, the handler answers 500 before it touches the table).
  \<^verbatim>\<open>SELECT MAX(id) FROM logs\<close> is NULL on an empty table, and no id equals NULL.
\<close>

definition max_id :: "log list \<Rightarrow> int option" where
  "max_id ls = (if ls = [] then None else Some (Max (set (map log_id ls))))"

definition photo_filename :: "string \<Rightarrow> string \<Rightarrow> string \<Rightarrow> string" where
  "photo_filename fid ct stamp =
     (if fid \<noteq> [] then fid @ ''_capture'' @ ct @ ''.jpg'' else stamp @ ''.jpg'')"

definition upload_photo ::
  "string option \<Rightarrow> string option \<Rightarrow> string \<Rightarrow> bool \<Rightarrow> db \<Rightarrow> response \<times> db" where
  "upload_photo hdr_feeding_id hdr_capture_type stamp written d =
     (let fid = (case hdr_feeding_id of None \<Rightarrow> [] | Some s \<Rightarrow> s);
          ct = (case hdr_capture_type of None \<Rightarrow> ''1'' | Some s \<Rightarrow> s);
          path = ''/static/uploads/'' @ photo_filename fid ct stamp
      in if \<not> written then ((500, Text ''Error uploading photo''), d)
         else
           ((200, Text ''Image uploaded''),
            d\<lparr>logs :=
                map (\<lambda>l. if (if fid \<noteq> [] then feeding_id l = Some fid
                              else Some (log_id l) = max_id (logs d))
                          then l\<lparr>image_path := Some path\<rparr> else l)
                    (logs d)\<rparr>))"

section \<open>Row order of the log table\<close>

text \<open>
  \<^verbatim>\<open>logs.id\<close> is the rowid of the table, so the rows of \<^verbatim>\<open>logs\<close> in rowid order are in
  ascending order of their id, and AUTOINCREMENT keeps the counter at or above every id:
  the last row of the list is the row inserted last.
\<close>

definition wf_logs :: "db \<Rightarrow> bool" where
  "wf_logs d \<longleftrightarrow>
     sorted_wrt (<) (map log_id (logs d)) \<and> list_all (\<lambda>l. log_id l \<le> logs_seq d) (logs d)"

section \<open>Sample stores\<close>

text \<open>
  The two stores the scripts leave on a new file: \<open>empty_store\<close> as \<^verbatim>\<open>init_db\<close> of
  \<^verbatim>\<open>app.py\<close> creates it, and \<open>setup_store\<close> with the tables of \<^verbatim>\<open>create_database\<close> of
  \<^verbatim>\<open>setup_database.py\<close>. Then the request of the scenario "register feeder (Module 1,
  192.168.1.10:80)" and the store of \<^verbatim>\<open>setup_database.py\<close> after it.
\<close>

definition empty_store :: db where
  "empty_store =
     \<lparr>feeders_table = False, feeders = [], feeders_seq = 0, logs = [], logs_seq = 0,
      logs_decl = InitDb, daily_stats = ByDate []\<rparr>"

definition setup_store :: db where
  "setup_store =
     \<lparr>feeders_table = True, feeders = [], feeders_seq = 0, logs = [], logs_seq = 0,
      logs_decl = SetupDatabase, daily_stats = ByFeederDate []\<rparr>"

definition module_1 :: add_request where
  "module_1 =
     \<lparr>req_name = Some ''Module 1'', req_ip_address = Some ''192.168.1.10:80'',
      req_location = None, req_max_capacity_g = None\<rparr>"

definition one_feeder :: db where
  "one_feeder =
     setup_store\<lparr>feeders :=
       [new_feeder 1 ''Module 1'' ''192.168.1.10'' 80 ''Main Area'' 5000
          ''2024-01-01 10:00:00'' ''2024-01-01 02:00:00''],
       feeders_seq := 1\<rparr>"

text \<open>
  The store after a \<^verbatim>\<open>get_feeders\<close> whose probe of Module 1 succeeded, and two networks:
  one on which every request fails with a \<^verbatim>\<open>RequestException\<close>, and one on which the
  device answers every request with the given status code.
\<close>

definition online_feeder :: db where
  "online_feeder =
     update_feeder_status 1 True ''2024-01-01 10:01:00'' ''2024-01-01 10:01:00'' one_feeder"

definition no_route :: net where
  "no_route = (\<lambda>c. RequestException)"

definition answers :: "nat \<Rightarrow> net" where
  "answers code = (\<lambda>c. Status code)"

text \<open>
  A \<^verbatim>\<open>MANUAL_FEED\<close> report of \<open>a\<close> grams as a device posts it to \<^verbatim>\<open>/log_data\<close>.
\<close>

definition manual_feed :: "int \<Rightarrow> log_form" where
  "manual_feed a =
     \<lparr>form_weight = None, form_source = None, form_amount = Some a,
      form_event = Some ''MANUAL_FEED'', form_feed_type = None, form_feeding_id = None\<rparr>"

text \<open>
  The row that \<^verbatim>\<open>log_data\<close> writes for \<open>manual_feed a\<close>, and the store after the scenario
  "record three countable events on 2024-01-01 with amounts 50, 50 and 100", recorded
  half an hour after local midnight.
\<close>

definition feed_row :: "int \<Rightarrow> timestamp \<Rightarrow> int \<Rightarrow> log" where
  "feed_row i t a = \<lparr>log_id = i, log_feeder_id = 1, timestamp = t, source = ''ESP32'',
      weight = None, amount = a, event_type = ''MANUAL_FEED'', image_path = None,
      feed_type = Some ''Manual'', feeding_id = Some []\<rparr>"

definition three_feeds :: db where
  "three_feeds =
     snd (log_data (manual_feed 100) ''2024-01-01 00:30:10'' ''2024-01-01''
       (snd (log_data (manual_feed 50) ''2024-01-01 00:30:05'' ''2024-01-01''
         (snd (log_data (manual_feed 50) ''2024-01-01 00:30:00'' ''2024-01-01''
            empty_store)))))"

text \<open>
  Two button feeds that carry a correlation token, as \<^verbatim>\<open>log_data\<close> records them.
\<close>

definition tagged_row :: "int \<Rightarrow> string \<Rightarrow> log" where
  "tagged_row i tok = \<lparr>log_id = i, log_feeder_id = 1, timestamp = ''2024-01-01 10:00:00'',
      source = ''ESP32'', weight = None, amount = 50, event_type = ''BUTTON_FEED'',
      image_path = None, feed_type = Some ''Manual'', feeding_id = Some tok\<rparr>"

definition tagged_store :: db where
  "tagged_store = empty_store\<lparr>logs := [tagged_row 1 ''abc123'', tagged_row 2 ''f00d''],
      logs_seq := 2, daily_stats := ByDate [(''2024-01-01'', 2)]\<rparr>"

text \<open>A second registration request, for Module 2 at the given address.\<close>

definition module_2 :: "string \<Rightarrow> add_request" where
  "module_2 a =
     \<lparr>req_name = Some ''Module 2'', req_ip_address = Some a,
      req_location = None, req_max_capacity_g = None\<rparr>"

section \<open>Stores of the feeder registry\<close>

text \<open>
  The stores that the handlers above leave, starting from the file that
  \<^verbatim>\<open>setup_database.py\<close> creates: the only file with a table \<^verbatim>\<open>feeders\<close>. These handlers
  hold every statement of \<^verbatim>\<open>app.py\<close> that writes this table: the INSERT of \<^verbatim>\<open>add_feeder\<close>,
  the UPDATE of \<^verbatim>\<open>delete_feeder\<close>, and the two of \<^verbatim>\<open>update_feeder_status\<close>, which
  \<^verbatim>\<open>get_feeders\<close> and \<^verbatim>\<open>trigger_feeding_by_feeder\<close> call. \<open>unique_hosts\<close> says that no two
  active modules share a host, and \<open>registry_inv\<close> is the invariant of these stores.
\<close>

inductive reachable :: "db \<Rightarrow> bool" where
  created: "reachable setup_store"
| add_feeder: "reachable d \<Longrightarrow> reachable (snd (add_feeder r now utc_now d))"
| delete_feeder: "reachable d \<Longrightarrow> reachable (snd (delete_feeder fid now d))"
| get_feeders: "reachable d \<Longrightarrow> reachable (snd (snd (get_feeders n clock d)))"
| trigger_feeding_by_feeder:
    "reachable d \<Longrightarrow>
     reachable (snd (snd (trigger_feeding_by_feeder n fid amt now today t t' d)))"
| log_data: "reachable d \<Longrightarrow> reachable (snd (log_data form now today d))"
| delete_log: "reachable d \<Longrightarrow> reachable (snd (delete_log lid d))"
| delete_all_logs: "reachable d \<Longrightarrow> reachable (snd (delete_all_logs d))"
| upload_photo: "reachable d \<Longrightarrow> reachable (snd (upload_photo hdr ct stamp written d))"

definition unique_hosts :: "db \<Rightarrow> bool" where
  "unique_hosts d \<longleftrightarrow> distinct (map esp32_ip (filter is_active (feeders d)))"

definition registry_inv :: "db \<Rightarrow> bool" where
  "registry_inv d \<longleftrightarrow> feeders_table d \<and> unique_hosts d"

section \<open>Properties of the online state\<close>

lemma stamp_status_fields:
  "updated_at (stamp_status b t t' f) = Some t'"
  "is_online (stamp_status b t t' f) = b"
  "feeder_id (stamp_status b t t' f) = feeder_id f"
  "esp32_ip (stamp_status b t t' f) = esp32_ip f"
  "esp32_port (stamp_status b t t' f) = esp32_port f"
  "is_active (stamp_status b t t' f) = is_active f"
  "last_online (stamp_status b t t' f) = (if b then Some t else last_online f)"
  "last_offline (stamp_status b t t' f) = (if b then last_offline f else Some t)"
  by (simp_all add: stamp_status_def)

lemma update_feeder_status_missing:
  assumes "fid \<notin> feeder_id ` set (feeders d)"
  shows "update_feeder_status fid b t t' d = d"
proof -
  have "map (\<lambda>f. if feeder_id f = fid then stamp_status b t t' f else f) (feeders d) = feeders d"
    using assms by (intro map_idI) auto
  then show ?thesis by (simp add: update_feeder_status_def)
qed

lemma update_feeder_status_frame:
  "logs (update_feeder_status fid b t t' d) = logs d"
  "logs_seq (update_feeder_status fid b t t' d) = logs_seq d"
  "logs_decl (update_feeder_status fid b t t' d) = logs_decl d"
  "daily_stats (update_feeder_status fid b t t' d) = daily_stats d"
  "feeders_seq (update_feeder_status fid b t t' d) = feeders_seq d"
  by (simp_all add: update_feeder_status_def)

text \<open>
  Claim C6, as the code has it. One call of \<^verbatim>\<open>update_feeder_status\<close> keeps the number of
  rows; on every row with the given id it sets \<^verbatim>\<open>updated_at\<close> and the online flag and
  stamps \<^verbatim>\<open>last_online\<close> when the flag is true and \<^verbatim>\<open>last_offline\<close> when it is false,
  leaving the other of the two as it was; every other row is unchanged, and with no row
  of that id the store is unchanged. After a call with true at the clock reading \<open>t1\<close>
  and a call with false at the clock reading \<open>t2\<close>, the row holds \<open>t1\<close> as last-online and
  \<open>t2\<close> as last-offline, whatever the two readings are. So last-offline is at least
  last-online when the second reading is not before the first. It need not be strictly
  later, since the stamps are cut to whole seconds, and it is earlier when the local
  clock has stepped back between the calls.
\<close>

theorem update_feeder_status_stamps:
  "length (feeders (update_feeder_status fid b t t' d)) = length (feeders d)
   \<and> (\<forall>i < length (feeders d).
        (feeder_id (feeders d ! i) = fid \<longrightarrow>
           updated_at (feeders (update_feeder_status fid b t t' d) ! i) = Some t'
         \<and> is_online (feeders (update_feeder_status fid b t t' d) ! i) = b
         \<and> (b \<longrightarrow> last_online (feeders (update_feeder_status fid b t t' d) ! i) = Some t
                 \<and> last_offline (feeders (update_feeder_status fid b t t' d) ! i)
                     = last_offline (feeders d ! i))
         \<and> (\<not> b \<longrightarrow> last_offline (feeders (update_feeder_status fid b t t' d) ! i) = Some t
                 \<and> last_online (feeders (update_feeder_status fid b t t' d) ! i)
                     = last_online (feeders d ! i)))
      \<and> (feeder_id (feeders d ! i) \<noteq> fid \<longrightarrow>
           feeders (update_feeder_status fid b t t' d) ! i = feeders d ! i)
      \<and> (feeder_id (feeders d ! i) = fid \<longrightarrow>
           last_online (feeders (update_feeder_status fid False t2 t2'
                                   (update_feeder_status fid True t1 t1' d)) ! i) = Some t1
         \<and> last_offline (feeders (update_feeder_status fid False t2 t2'
                                   (update_feeder_status fid True t1 t1' d)) ! i) = Some t2
         \<and> (t1 \<le> t2 \<longrightarrow>
              the (last_online (feeders (update_feeder_status fid False t2 t2'
                                   (update_feeder_status fid True t1 t1' d)) ! i))
                \<le> the (last_offline (feeders (update_feeder_status fid False t2 t2'
                                   (update_feeder_status fid True t1 t1' d)) ! i)))))
   \<and> (fid \<notin> feeder_id ` set (feeders d) \<longrightarrow> update_feeder_status fid b t t' d = d)"
  using update_feeder_status_missing[of fid d b t t']
  by (auto simp: update_feeder_status_def stamp_status_fields)

theorem update_feeder_status_stamps_witness:
  "0 < length (feeders one_feeder)
   \<and> feeder_id (feeders one_feeder ! 0) = 1
   \<and> (''2024-01-01 10:00:00'' :: string) \<le> ''2024-01-01 10:00:05''
   \<and> is_online (feeders (update_feeder_status 1 False ''2024-01-01 10:00:05''
                     ''2024-01-01 10:00:05'' one_feeder) ! 0) = False
   \<and> last_online (feeders (update_feeder_status 1 False ''2024-01-01 10:00:05''
        ''2024-01-01 10:00:05''
        (update_feeder_status 1 True ''2024-01-01 10:00:00'' ''2024-01-01 10:00:00''
           one_feeder)) ! 0) = Some ''2024-01-01 10:00:00''
   \<and> last_offline (feeders (update_feeder_status 1 False ''2024-01-01 10:00:05''
        ''2024-01-01 10:00:05''
        (update_feeder_status 1 True ''2024-01-01 10:00:00'' ''2024-01-01 10:00:00''
           one_feeder)) ! 0) = Some ''2024-01-01 10:00:05''
   \<and> the (last_online (feeders (update_feeder_status 1 False ''2024-01-01 10:00:05''
        ''2024-01-01 10:00:05''
        (update_feeder_status 1 True ''2024-01-01 10:00:00'' ''2024-01-01 10:00:00''
           one_feeder)) ! 0))
       \<le> the (last_offline (feeders (update_feeder_status 1 False ''2024-01-01 10:00:05''
        ''2024-01-01 10:00:05''
        (update_feeder_status 1 True ''2024-01-01 10:00:00'' ''2024-01-01 10:00:00''
           one_feeder)) ! 0))
   \<and> 2 \<notin> feeder_id ` set (feeders one_feeder)
   \<and> update_feeder_status 2 False ''2024-01-01 10:00:05'' ''2024-01-01 10:00:05'' one_feeder
       = one_feeder"
  using update_feeder_status_stamps
    [where fid = 1 and b = False and t = "''2024-01-01 10:00:05''"
       and t' = "''2024-01-01 10:00:05''" and d = one_feeder
       and ?t1.0 = "''2024-01-01 10:00:00''" and ?t1' = "''2024-01-01 10:00:00''"
       and ?t2.0 = "''2024-01-01 10:00:05''" and ?t2' = "''2024-01-01 10:00:05''"]
    update_feeder_status_stamps
    [where fid = 2 and b = False and t = "''2024-01-01 10:00:05''"
       and t' = "''2024-01-01 10:00:05''" and d = one_feeder]
  by (simp add: one_feeder_def setup_store_def new_feeder_def)

text \<open>
  Claim C6 as the specification states it asks for last-offline strictly later than
  last-online after the two calls. Two calls within one clock second, both reading
  \<^verbatim>\<open>2024-01-01 10:00:00\<close>, leave the two stamps equal. And \<^verbatim>\<open>datetime.now()\<close> is local
  wall-clock time: where daylight saving ends on 2024-11-03 at 02:00, a call with true
  at \<^verbatim>\<open>01:59:59\<close> and a call with false one second later, when the clock reads
  \<^verbatim>\<open>01:00:00\<close> again, leave last-offline earlier than last-online.
\<close>

theorem update_feeder_status_not_later:
  "map last_online (feeders (update_feeder_status 1 False ''2024-01-01 10:00:00''
        ''2024-01-01 10:00:00''
        (update_feeder_status 1 True ''2024-01-01 10:00:00'' ''2024-01-01 10:00:00''
           one_feeder))) = [Some ''2024-01-01 10:00:00'']
   \<and> map last_offline (feeders (update_feeder_status 1 False ''2024-01-01 10:00:00''
        ''2024-01-01 10:00:00''
        (update_feeder_status 1 True ''2024-01-01 10:00:00'' ''2024-01-01 10:00:00''
           one_feeder))) = [Some ''2024-01-01 10:00:00'']
   \<and> \<not> ((''2024-01-01 10:00:00'' :: string) < ''2024-01-01 10:00:00'')
   \<and> map last_online (feeders (update_feeder_status 1 False ''2024-11-03 01:00:00''
        ''2024-11-03 01:00:00''
        (update_feeder_status 1 True ''2024-11-03 01:59:59'' ''2024-11-03 01:59:59''
           one_feeder))) = [Some ''2024-11-03 01:59:59'']
   \<and> map last_offline (feeders (update_feeder_status 1 False ''2024-11-03 01:00:00''
        ''2024-11-03 01:00:00''
        (update_feeder_status 1 True ''2024-11-03 01:59:59'' ''2024-11-03 01:59:59''
           one_feeder))) = [Some ''2024-11-03 01:00:00'']
   \<and> (''2024-11-03 01:00:00'' :: string) < ''2024-11-03 01:59:59''"
  by (simp add: one_feeder_def setup_store_def new_feeder_def update_feeder_status_def
        stamp_status_def)

section \<open>Properties of the daily aggregate\<close>

lemma map_of_filter_key: "map_of (filter (\<lambda>r. fst r \<noteq> k) rows) k = None"
  by (induction rows) auto


lemma bump_date_ByDate_today:
  "first_for_date day (bump_date day (ByDate rows)) =
     Some ((case map_of rows day of None \<Rightarrow> 0 | Some c \<Rightarrow> c) + 1)"
  by (simp add: bump_date_def first_for_date_def map_add_def map_of_filter_key)


lemma bump_date_ByDate_rows:
  "\<exists>rows'. bump_date day (ByDate rows) = ByDate rows'
           \<and> length (filter (\<lambda>r. fst r = day) rows') = 1"
  by (simp add: bump_date_def first_for_date_def)

lemma log_data_InitDb:
  "logs_decl d = InitDb \<Longrightarrow>
   fst (log_data form now today d) = (200, Text ''Logged'')
   \<and> feeders (snd (log_data form now today d)) = feeders d
   \<and> logs_decl (snd (log_data form now today d)) = InitDb
   \<and> logs_seq (snd (log_data form now today d)) = logs_seq d + 1
   \<and> butlast (logs (snd (log_data form now today d))) = logs d
   \<and> log_id (last (logs (snd (log_data form now today d)))) = logs_seq d + 1
   \<and> event_type (last (logs (snd (log_data form now today d)))) = event_of form
   \<and> log_feeder_id (last (logs (snd (log_data form now today d)))) = 1
   \<and> timestamp (last (logs (snd (log_data form now today d)))) = now
   \<and> daily_stats (snd (log_data form now today d)) =
       (if event_of form \<in> set countable_events then bump_date today (daily_stats d)
        else daily_stats d)"
  by (simp add: log_data_def Let_def)

lemma manual_feed_event: "event_of (manual_feed a) = ''MANUAL_FEED''"
  by (simp add: event_of_def manual_feed_def)

lemma MANUAL_FEED_countable: "''MANUAL_FEED'' \<in> set countable_events"
  by (simp add: countable_events_def)





lemma log_data_manual_feed:
  "logs_decl d = InitDb \<Longrightarrow> daily_stats d = ByDate rows \<Longrightarrow>
   snd (log_data (manual_feed a) now today d) =
     d\<lparr>logs := logs d @ [feed_row (logs_seq d + 1) now a], logs_seq := logs_seq d + 1,
       daily_stats := bump_date today (ByDate rows)\<rparr>"
  by (simp add: log_data_def manual_feed_event MANUAL_FEED_countable Let_def feed_row_def)
     (simp add: manual_feed_def)

lemma three_feeds_eq:
  "three_feeds = \<lparr>feeders_table = False, feeders = [], feeders_seq = 0,
     logs = [feed_row 1 ''2024-01-01 00:30:00'' 50, feed_row 2 ''2024-01-01 00:30:05'' 50,
             feed_row 3 ''2024-01-01 00:30:10'' 100],
     logs_seq = 3, logs_decl = InitDb, daily_stats = ByDate [(''2024-01-01'', 3)]\<rparr>"
  unfolding three_feeds_def
  by (simp add: log_data_manual_feed empty_store_def bump_date_def first_for_date_def)

lemma log_data_count:
  assumes "logs_decl d = InitDb" and "daily_stats d = ByDate rows"
    and "event_of form \<in> set countable_events"
  shows "\<exists>rows'. daily_stats (snd (log_data form now today d)) = ByDate rows'
           \<and> map_of rows' today = Some ((case map_of rows today of None \<Rightarrow> 0 | Some c \<Rightarrow> c) + 1)
           \<and> logs_decl (snd (log_data form now today d)) = InitDb"
proof -
  obtain rows' where r: "bump_date today (ByDate rows) = ByDate rows'"
    using bump_date_ByDate_rows[of today rows] by blast
  have "map_of rows' today = Some ((case map_of rows today of None \<Rightarrow> 0 | Some c \<Rightarrow> c) + 1)"
    using bump_date_ByDate_today[of today rows] r by (simp add: first_for_date_def)
  then show ?thesis
    using log_data_InitDb[OF assms(1), of form now today] assms(2,3) r by simp
qed

lemma delete_log_frame:
  "daily_stats (snd (delete_log lid d)) = daily_stats d"
  "feeders (snd (delete_log lid d)) = feeders d"
  "logs (snd (delete_log lid d)) = filter (\<lambda>l. log_id l \<noteq> lid) (logs d)"
  "fst (delete_log lid d) = (200, Text ''Log deleted'')"
  by (simp_all add: delete_log_def)

lemma delete_all_logs_frame:
  "daily_stats (snd (delete_all_logs d)) = daily_stats d"
  "feeders (snd (delete_all_logs d)) = feeders d"
  "logs (snd (delete_all_logs d)) = []"
  "fst (delete_all_logs d) = (200, Text ''All logs deleted'')"
  by (simp_all add: delete_all_logs_def)

text \<open>
  Claim C9. \<^verbatim>\<open>delete_log\<close> removes exactly the log rows with the given id and
  \<^verbatim>\<open>delete_all_logs\<close> removes every log row; both leave \<^verbatim>\<open>daily_stats\<close> (and \<^verbatim>\<open>feeders\<close>)
  as they were. So after three countable events recorded on a date that had no
  aggregate, the count of that date is 3 and stays 3 when one log row, or every log
  row, is deleted.
\<close>

theorem delete_keeps_daily_stats:
  "daily_stats (snd (delete_log lid d)) = daily_stats d
   \<and> feeders (snd (delete_log lid d)) = feeders d
   \<and> (\<forall>l. l \<in> set (logs (snd (delete_log lid d))) \<longleftrightarrow> l \<in> set (logs d) \<and> log_id l \<noteq> lid)
   \<and> daily_stats (snd (delete_all_logs d)) = daily_stats d
   \<and> feeders (snd (delete_all_logs d)) = feeders d
   \<and> logs (snd (delete_all_logs d)) = []
   \<and> (logs_decl d = InitDb \<longrightarrow> daily_stats d = ByDate rows \<longrightarrow> map_of rows today = None \<longrightarrow>
      event_of f1 \<in> set countable_events \<longrightarrow> event_of f2 \<in> set countable_events \<longrightarrow>
      event_of f3 \<in> set countable_events \<longrightarrow>
        first_for_date today (daily_stats
          (snd (log_data f3 n3 today (snd (log_data f2 n2 today (snd (log_data f1 n1 today d)))))))
          = Some 3
      \<and> first_for_date today (daily_stats (snd (delete_log lid
          (snd (log_data f3 n3 today (snd (log_data f2 n2 today (snd (log_data f1 n1 today d)))))))))
          = Some 3
      \<and> first_for_date today (daily_stats (snd (delete_all_logs
          (snd (log_data f3 n3 today (snd (log_data f2 n2 today (snd (log_data f1 n1 today d)))))))))
          = Some 3)"
proof -
  have scen: "first_for_date today (daily_stats
          (snd (log_data f3 n3 today (snd (log_data f2 n2 today (snd (log_data f1 n1 today d)))))))
          = Some 3"
    if a: "logs_decl d = InitDb" "daily_stats d = ByDate rows" "map_of rows today = None"
      and e: "event_of f1 \<in> set countable_events" "event_of f2 \<in> set countable_events"
        "event_of f3 \<in> set countable_events"
  proof -
    let ?d1 = "snd (log_data f1 n1 today d)"
    let ?d2 = "snd (log_data f2 n2 today ?d1)"
    let ?d3 = "snd (log_data f3 n3 today ?d2)"
    from log_data_count[OF a(1,2) e(1), of n1 today] a(3)
    obtain r1 where 1: "daily_stats ?d1 = ByDate r1" "map_of r1 today = Some 1"
      "logs_decl ?d1 = InitDb" by auto
    from log_data_count[OF 1(3) 1(1) e(2), of n2 today] 1(2)
    obtain r2 where 2: "daily_stats ?d2 = ByDate r2" "map_of r2 today = Some 2"
      "logs_decl ?d2 = InitDb" by auto
    from log_data_count[OF 2(3) 2(1) e(3), of n3 today] 2(2)
    obtain r3 where 3: "daily_stats ?d3 = ByDate r3" "map_of r3 today = Some 3" by auto
    then show ?thesis by (simp add: first_for_date_def)
  qed
  show ?thesis
    using scen by (simp add: delete_log_frame delete_all_logs_frame)
qed

theorem delete_keeps_daily_stats_witness:
  "logs_decl empty_store = InitDb \<and> daily_stats empty_store = ByDate []
   \<and> map_of ([] :: (date \<times> int) list) ''2024-01-01'' = None
   \<and> event_of (manual_feed 50) \<in> set countable_events
   \<and> event_of (manual_feed 100) \<in> set countable_events
   \<and> map log_id (logs three_feeds) = [1, 2, 3]
   \<and> map log_id (logs (snd (delete_log 2 three_feeds))) = [1, 3]
   \<and> first_for_date ''2024-01-01'' (daily_stats (snd (delete_log 2 three_feeds))) = Some 3
   \<and> first_for_date ''2024-01-01'' (daily_stats (snd (delete_all_logs three_feeds))) = Some 3"
proof -
  note T = delete_keeps_daily_stats
    [where d = empty_store and rows = "[]" and today = "''2024-01-01''"
       and ?f1.0 = "manual_feed 50" and ?f2.0 = "manual_feed 50" and ?f3.0 = "manual_feed 100"
       and ?n1.0 = "''2024-01-01 00:30:00''" and ?n2.0 = "''2024-01-01 00:30:05''"
       and ?n3.0 = "''2024-01-01 00:30:10''" and lid = 2, folded three_feeds_def]
  have ids: "map log_id (logs three_feeds) = [1, 2, 3]"
    "map log_id (logs (snd (delete_log 2 three_feeds))) = [1, 3]"
    by (simp_all add: three_feeds_eq feed_row_def delete_log_def)
  show ?thesis
    using T ids by (simp add: empty_store_def manual_feed_event MANUAL_FEED_countable)
qed

section \<open>Properties of the daily totals\<close>

text \<open>
  On a day whose local date and UTC date agree, \<^verbatim>\<open>get_daily_stats\<close> reports the three
  feedings of the scenario with their sum.
\<close>

lemma three_feeds_same_day:
  "get_daily_stats ''2024-01-01'' ''2024-01-01'' three_feeds = (200, Daily_stats 3 200)"
  by (simp add: three_feeds_eq feed_row_def MANUAL_FEED_countable first_for_date_def
        get_daily_stats_def total_dispensed_def sql_DATE_def)

text \<open>
  Claim C8 asks for the stored count of a date together with the sum over the countable
  events of that same date. \<^verbatim>\<open>get_daily_stats\<close> looks the count up under
  \<^verbatim>\<open>date.today()\<close>, the local date, but sums the rows whose \<^verbatim>\<open>DATE(timestamp)\<close> equals
  \<^verbatim>\<open>DATE('now')\<close>, the UTC date, while the timestamps are written in local time. East
  of Greenwich, half an hour after midnight of 2024-01-01, the UTC date is still
  2023-12-31: the three feedings just recorded are counted, and their sum is 0.
\<close>

theorem get_daily_stats_utc_date:
  "get_daily_stats ''2024-01-01'' ''2023-12-31'' three_feeds = (200, Daily_stats 3 0)"
  by (simp add: three_feeds_eq feed_row_def MANUAL_FEED_countable first_for_date_def
        get_daily_stats_def total_dispensed_def sql_DATE_def)

section \<open>The row order is kept\<close>

lemma wf_logs_empty_store: "wf_logs empty_store"
  by (simp add: wf_logs_def empty_store_def)

lemma wf_logs_append:
  assumes "wf_logs d"
  shows "wf_logs (d\<lparr>logs := logs d @ [r\<lparr>log_id := logs_seq d + 1\<rparr>], logs_seq := logs_seq d + 1\<rparr>)"
  using assms by (auto simp: wf_logs_def sorted_wrt_append list_all_iff)

lemma log_data_wf: "wf_logs d \<Longrightarrow> wf_logs (snd (log_data form now today d))"
  by (auto simp: log_data_def Let_def wf_logs_def sorted_wrt_append list_all_iff)

lemma delete_log_wf: "wf_logs d \<Longrightarrow> wf_logs (snd (delete_log lid d))"
  by (auto simp: delete_log_def wf_logs_def sorted_wrt_map sorted_wrt_filter list_all_iff)

lemma delete_all_logs_wf: "wf_logs (snd (delete_all_logs d))"
  by (simp add: delete_all_logs_def wf_logs_def)

lemma upload_photo_wf: "wf_logs d \<Longrightarrow> wf_logs (snd (upload_photo hdr ct stamp written d))"
proof -
  assume w: "wf_logs d"
  have m: "log_id \<circ> (\<lambda>l. if P l then l\<lparr>image_path := Some p\<rparr> else l) = log_id"
    for P p by (auto simp: fun_eq_iff)
  show ?thesis
    using w by (auto simp: upload_photo_def Let_def wf_logs_def list_all_iff m)
qed

lemma trigger_feeding_by_feeder_wf:
  "wf_logs d \<Longrightarrow> wf_logs (snd (snd (trigger_feeding_by_feeder n fid amt now today t t' d)))"
  by (auto simp: trigger_feeding_by_feeder_def Let_def wf_logs_def sorted_wrt_append
        list_all_iff manual_feed_row_def update_feeder_status_frame
      split: option.splits http_result.splits sum.splits)

section \<open>Properties of the photo attachment\<close>

lemma max_id_last:
  assumes "sorted_wrt (<) (map log_id ls)" and "ls \<noteq> []"
  shows "max_id ls = Some (log_id (last ls))"
    and "\<forall>l \<in> set (butlast ls). log_id l \<noteq> log_id (last ls)"
proof -
  obtain xs x where ls: "ls = xs @ [x]" using assms(2) by (cases ls rule: rev_cases) auto
  have lt: "\<forall>y \<in> set xs. log_id y < log_id x"
    using assms(1) by (simp add: ls sorted_wrt_append)
  have "Max (set (map log_id ls)) = log_id x"
    by (rule Max_eqI) (use lt in \<open>auto simp: ls less_imp_le\<close>)
  then show "max_id ls = Some (log_id (last ls))" using assms(2) by (simp add: max_id_def ls)
  show "\<forall>l \<in> set (butlast ls). log_id l \<noteq> log_id (last ls)" using lt by (auto simp: ls)
qed

lemma patch_last:
  assumes "sorted_wrt (<) (map log_id ls)" and "ls \<noteq> []"
  shows "map (\<lambda>l. if Some (log_id l) = max_id ls then g l else l) ls = butlast ls @ [g (last ls)]"
proof -
  have "map (\<lambda>l. if Some (log_id l) = max_id ls then g l else l) (butlast ls @ [last ls])
          = butlast ls @ [g (last ls)]"
    using max_id_last[OF assms] by (simp add: map_idI)
  then show ?thesis using assms(2) by simp
qed

lemma upload_photo_written:
  "upload_photo hdr ct stamp True d =
     ((200, Text ''Image uploaded''),
      d\<lparr>logs := map (\<lambda>l. if (if (case hdr of None \<Rightarrow> [] | Some s \<Rightarrow> s) \<noteq> []
                                then feeding_id l = Some (case hdr of None \<Rightarrow> [] | Some s \<Rightarrow> s)
                                else Some (log_id l) = max_id (logs d))
                          then l\<lparr>image_path := Some (''/static/uploads/'' @
                                  photo_filename (case hdr of None \<Rightarrow> [] | Some s \<Rightarrow> s)
                                    (case ct of None \<Rightarrow> ''1'' | Some s \<Rightarrow> s) stamp)\<rparr>
                          else l) (logs d)\<rparr>)"
  by (simp add: upload_photo_def Let_def)

text \<open>
  Claim C7. When the image file has been written, \<^verbatim>\<open>upload_photo\<close> answers 200 and
  touches nothing but the \<^verbatim>\<open>image_path\<close> of log rows. With a token (a non-empty
  \<^verbatim>\<open>X-Feeding-ID\<close> header) it sets the path on exactly the rows whose \<^verbatim>\<open>feeding_id\<close>
  equals the token and leaves every other row as it was. With no token it sets the path
  on the last row of the table, the one inserted last, and on no other. When no row
  matches the token, or the table is empty, the store is unchanged and the answer is
  still 200.
\<close>

theorem upload_photo_patches:
  "(let tok = (case hdr of None \<Rightarrow> [] | Some s \<Rightarrow> s);
        path = ''/static/uploads/'' @ photo_filename tok (case ct of None \<Rightarrow> ''1'' | Some s \<Rightarrow> s) stamp;
        d' = snd (upload_photo hdr ct stamp True d)
    in fst (upload_photo hdr ct stamp True d) = (200, Text ''Image uploaded'')
     \<and> feeders d' = feeders d \<and> daily_stats d' = daily_stats d
     \<and> length (logs d') = length (logs d)
     \<and> (tok \<noteq> [] \<longrightarrow>
          (\<forall>i < length (logs d).
             logs d' ! i = (if feeding_id (logs d ! i) = Some tok
                            then (logs d ! i)\<lparr>image_path := Some path\<rparr> else logs d ! i)))
     \<and> (tok = [] \<longrightarrow> wf_logs d \<longrightarrow> logs d \<noteq> [] \<longrightarrow>
          logs d' = butlast (logs d) @ [(last (logs d))\<lparr>image_path := Some path\<rparr>])
     \<and> (tok \<noteq> [] \<longrightarrow> (\<forall>l \<in> set (logs d). feeding_id l \<noteq> Some tok) \<longrightarrow> d' = d)
     \<and> (tok = [] \<longrightarrow> logs d = [] \<longrightarrow> d' = d))"
proof -
  let ?tok = "case hdr of None \<Rightarrow> [] | Some s \<Rightarrow> s"
  let ?path = "''/static/uploads/'' @ photo_filename ?tok (case ct of None \<Rightarrow> ''1'' | Some s \<Rightarrow> s) stamp"
  let ?d' = "snd (upload_photo hdr ct stamp True d)"
  note U = upload_photo_written[of hdr ct stamp d]
  have a: "fst (upload_photo hdr ct stamp True d) = (200, Text ''Image uploaded'')"
    "feeders ?d' = feeders d" "daily_stats ?d' = daily_stats d"
    "length (logs ?d') = length (logs d)"
    by (simp_all add: U)
  have b: "logs ?d' ! i = (if feeding_id (logs d ! i) = Some ?tok
                            then (logs d ! i)\<lparr>image_path := Some ?path\<rparr> else logs d ! i)"
    if "?tok \<noteq> []" "i < length (logs d)" for i
    using that by (simp add: U)
  have c: "logs ?d' = butlast (logs d) @ [(last (logs d))\<lparr>image_path := Some ?path\<rparr>]"
    if "?tok = []" "wf_logs d" "logs d \<noteq> []"
  proof -
    have "logs ?d' = map (\<lambda>l. if Some (log_id l) = max_id (logs d)
                               then l\<lparr>image_path := Some ?path\<rparr> else l) (logs d)"
      using that(1) by (simp add: U)
    then show ?thesis
      using patch_last[of "logs d" "\<lambda>l. l\<lparr>image_path := Some ?path\<rparr>"] that(2,3)
      by (simp add: wf_logs_def)
  qed
  have e: "?d' = d" if "?tok \<noteq> []" "\<forall>l \<in> set (logs d). feeding_id l \<noteq> Some ?tok"
  proof -
    have "logs ?d' = logs d" using that by (simp add: U map_idI)
    then show ?thesis by (simp add: U)
  qed
  have f: "?d' = d" if "?tok = []" "logs d = []"
    using that by (simp add: U)
  show ?thesis
    unfolding Let_def using a b c e f by blast
qed

theorem upload_photo_patches_witness:
  "(''abc123'' :: string) \<noteq> [] \<and> wf_logs tagged_store \<and> logs tagged_store \<noteq> []
   \<and> Some ''late'' \<notin> feeding_id ` set (logs tagged_store)
   \<and> map image_path (logs (snd (upload_photo (Some ''abc123'') None ''20240101_100000'' True
        tagged_store))) = [Some ''/static/uploads/abc123_capture1.jpg'', None]
   \<and> map image_path (logs (snd (upload_photo None None ''20240101_100000'' True
        tagged_store))) = [None, Some ''/static/uploads/20240101_100000.jpg'']
   \<and> snd (upload_photo (Some ''late'') None ''20240101_100000'' True tagged_store)
        = tagged_store"
proof -
  have wf: "wf_logs tagged_store"
    by (simp add: wf_logs_def tagged_store_def tagged_row_def empty_store_def)
  have l: "logs tagged_store = [tagged_row 1 ''abc123'', tagged_row 2 ''f00d'']"
    by (simp add: tagged_store_def)
  have none: "\<forall>l \<in> set (logs tagged_store). feeding_id l \<noteq> Some ''late''"
    by (simp add: l tagged_row_def)
  note T1 = upload_photo_patches[where hdr = "Some ''abc123''" and ct = None
      and stamp = "''20240101_100000''" and d = tagged_store, unfolded Let_def]
  note T2 = upload_photo_patches[where hdr = None and ct = None
      and stamp = "''20240101_100000''" and d = tagged_store, unfolded Let_def]
  note T3 = upload_photo_patches[where hdr = "Some ''late''" and ct = None
      and stamp = "''20240101_100000''" and d = tagged_store, unfolded Let_def]
  have 1: "map image_path (logs (snd (upload_photo (Some ''abc123'') None ''20240101_100000'' True
        tagged_store))) = [Some ''/static/uploads/abc123_capture1.jpg'', None]"
  proof (rule nth_equalityI)
    show "length (map image_path (logs (snd (upload_photo (Some ''abc123'') None
            ''20240101_100000'' True tagged_store))))
          = length [Some ''/static/uploads/abc123_capture1.jpg'', None]"
      using T1 by (simp add: l)
    fix i assume "i < length (map image_path (logs (snd (upload_photo (Some ''abc123'') None
            ''20240101_100000'' True tagged_store))))"
    then have i: "i < 2" using T1 by (simp add: l)
    then have "i = 0 \<or> i = 1" by auto
    then show "map image_path (logs (snd (upload_photo (Some ''abc123'') None
            ''20240101_100000'' True tagged_store))) ! i
          = [Some ''/static/uploads/abc123_capture1.jpg'', None] ! i"
      using T1 by (auto simp: l tagged_row_def photo_filename_def)
  qed
  have 2: "map image_path (logs (snd (upload_photo None None ''20240101_100000'' True
        tagged_store))) = [None, Some ''/static/uploads/20240101_100000.jpg'']"
    using T2 wf by (simp add: l tagged_row_def photo_filename_def)
  have 3: "snd (upload_photo (Some ''late'') None ''20240101_100000'' True tagged_store)
        = tagged_store"
    using T3 none by simp
  show ?thesis using wf none 1 2 3 by (auto simp: l)
qed

section \<open>Properties of the feeding trigger\<close>







lemma one_feeder_table: "feeders_table one_feeder"
  by (simp add: one_feeder_def setup_store_def)


lemma one_feeder_row:
  "esp32_ip (hd (feeders one_feeder)) = ''192.168.1.10''"
  "esp32_port (hd (feeders one_feeder)) = 80"
  "feeder_name (hd (feeders one_feeder)) = ''Module 1''"
  by (simp_all add: one_feeder_def setup_store_def new_feeder_def)









section \<open>Properties of the registration\<close>

lemma split_colon_1: "split_on CHR '':'' ''192.168.1.10:80'' = [''192.168.1.10'', ''80'']"
  by simp

lemma py_int_80: "py_int ''80'' = Some 80"
  by (simp add: py_int_def strip_def is_space_def unsigned_int_def is_digit_def digit_val_def)

lemma parse_module_1: "parse_address ''192.168.1.10:80'' = Inr (''192.168.1.10'', 80)"
  by (simp add: parse_address_def py_int_80)

lemma valid_ip_module_1: "valid_ip ''192.168.1.10''"
  by (simp add: valid_ip_def valid_part_def isdigit_def digits_val_def is_digit_def digit_val_def)

lemma add_module_1:
  "add_feeder module_1 ''2024-01-01 10:00:00'' ''2024-01-01 02:00:00'' setup_store
     = ((200, Feeder_added 1), one_feeder)"
  by (simp add: add_feeder_def module_1_def falsy_def parse_module_1 valid_ip_module_1
        setup_store_def one_feeder_def fits_sqlite_def)

lemma registry_inv_feeders:
  assumes "registry_inv d" and "feeders_table d' = feeders_table d" and "feeders d' = feeders d"
  shows "registry_inv d'"
  using assms by (simp add: registry_inv_def unique_hosts_def)














lemma reachable_one_feeder: "reachable one_feeder"
  using reachable.add_feeder[OF reachable.created, of module_1 "''2024-01-01 10:00:00''"
      "''2024-01-01 02:00:00''"]
  by (simp add: add_module_1)





lemma py_int_abc: "py_int ''abc'' = None" "py_int [] = None"
  by (simp_all add: py_int_def strip_def is_space_def unsigned_int_def is_digit_def)

lemma parse_malformed:
  "parse_address ''192.168.1.11:abc'' = Inl ValueError"
  "parse_address ''192.168.1.11:'' = Inl ValueError"
  "parse_address ''192.168.1.11:80:80'' = Inl ValueError"
  by (simp_all add: parse_address_def py_int_abc)

lemma parse_plain:
  "parse_address ''999.1.1.1'' = Inr (''999.1.1.1'', 80)"
  "parse_address ''1.2.3'' = Inr (''1.2.3'', 80)"
  by (simp_all add: parse_address_def)

lemma invalid_hosts: "\<not> valid_ip ''999.1.1.1''" "\<not> valid_ip ''1.2.3''"
  by (simp_all add: valid_ip_def valid_part_def isdigit_def digits_val_def is_digit_def
        digit_val_def)

lemma add_feeder_created:
  assumes "fst (add_feeder r now utc_now d) = (200, b)"
  shows "b = Feeder_added (feeders_seq d + 1)
     \<and> (\<exists>f. feeders (snd (add_feeder r now utc_now d)) = feeders d @ [f]
            \<and> feeder_id f = feeders_seq d + 1 \<and> is_active f \<and> \<not> is_online f
            \<and> last_offline f = None)"
  using assms
  by (auto simp: add_feeder_def Let_def new_feeder_def split: if_splits sum.splits)

text \<open>
  Claim C3 at addresses whose port is malformed. \<^verbatim>\<open>192.168.1.11:abc\<close>, \<^verbatim>\<open>192.168.1.11:\<close> and
  \<^verbatim>\<open>192.168.1.11:80:80\<close> are not an IPv4 literal followed by a port. \<^verbatim>\<open>add_feeder\<close>
  answers each of them with 500 and the text of the \<^verbatim>\<open>ValueError\<close> that \<^verbatim>\<open>int(port)\<close> or
  the unpacking of \<^verbatim>\<open>ip_address.split(':')\<close> raises, where the claim asks for the
  validation error. It answers 400, as the claim says, to \<^verbatim>\<open>999.1.1.1\<close>, to \<^verbatim>\<open>1.2.3\<close> and to
  the address of the active Module 1.
\<close>

theorem add_feeder_malformed_port:
  "add_feeder (module_2 ''192.168.1.11:abc'') ''2024-01-02 10:00:00'' ''2024-01-02 02:00:00''
      one_feeder = ((500, Exception_text ValueError), one_feeder)
   \<and> add_feeder (module_2 ''192.168.1.11:'') ''2024-01-02 10:00:00'' ''2024-01-02 02:00:00''
      one_feeder = ((500, Exception_text ValueError), one_feeder)
   \<and> add_feeder (module_2 ''192.168.1.11:80:80'') ''2024-01-02 10:00:00''
      ''2024-01-02 02:00:00'' one_feeder = ((500, Exception_text ValueError), one_feeder)
   \<and> add_feeder (module_2 ''999.1.1.1'') ''2024-01-02 10:00:00'' ''2024-01-02 02:00:00''
      one_feeder = ((400, Error ''Invalid IP address format''), one_feeder)
   \<and> add_feeder (module_2 ''1.2.3'') ''2024-01-02 10:00:00'' ''2024-01-02 02:00:00''
      one_feeder = ((400, Error ''Invalid IP address format''), one_feeder)
   \<and> add_feeder (module_2 ''192.168.1.10:80'') ''2024-01-02 10:00:00'' ''2024-01-02 02:00:00''
      one_feeder = ((400, Error ''A feeder with this IP already exists''), one_feeder)"
proof -
  have d: "feeders_table one_feeder"
    "find (\<lambda>f. esp32_ip f = ''192.168.1.10'' \<and> is_active f) (feeders one_feeder) \<noteq> None"
    by (simp_all add: one_feeder_def setup_store_def new_feeder_def)
  show ?thesis
    by (simp add: add_feeder_def module_2_def falsy_def parse_malformed parse_plain
          parse_module_1 invalid_hosts valid_ip_module_1 d)
qed

section \<open>Properties of the listing\<close>

lemma feeders_loop_reports:
  "fst (feeders_loop n clock fs d) = map (\<lambda>f. (f, probe n f)) fs"
  by (induction fs arbitrary: d) (simp_all add: Let_def probe_def split_beta)

lemma feeders_loop_calls:
  "fst (snd (feeders_loop n clock fs d))
     = map (\<lambda>f. GET_status (esp32_ip f) (esp32_port f) 2) fs"
  by (induction fs arbitrary: d) (simp_all add: Let_def split_beta)

lemma feeders_loop_step:
  "snd (snd (feeders_loop n clock (f # fs) d))
     = snd (snd (feeders_loop n clock fs
         (if probe n f \<noteq> is_online f
          then update_feeder_status (feeder_id f) (probe n f)
                 (fst (clock (feeder_id f))) (snd (clock (feeder_id f))) d
          else d)))"
  by (simp add: Let_def probe_def split_beta)

lemma feeders_loop_frame:
  "snd (snd (feeders_loop n clock fs d))
     = d\<lparr>feeders := feeders (snd (snd (feeders_loop n clock fs d)))\<rparr>"
proof (induction fs arbitrary: d)
  case Nil
  show ?case by simp
next
  case (Cons f fs)
  show ?case
    unfolding feeders_loop_step
    by (subst Cons.IH) (simp add: update_feeder_status_def)
qed

lemma feeders_loop_rows:
  assumes "distinct (map feeder_id fs)"
  shows "feeders (snd (snd (feeders_loop n clock fs d)))
     = map (\<lambda>g. case find (\<lambda>f. feeder_id f = feeder_id g) fs of
                   None \<Rightarrow> g
                 | Some f \<Rightarrow>
                     if probe n f \<noteq> is_online f
                     then stamp_status (probe n f) (fst (clock (feeder_id f)))
                            (snd (clock (feeder_id f))) g
                     else g)
         (feeders d)"
  using assms
proof (induction fs arbitrary: d)
  case Nil
  show ?case by simp
next
  case (Cons f fs)
  have "feeder_id f \<notin> feeder_id ` set fs" using Cons.prems by simp
  then have "\<forall>x \<in> set fs. feeder_id x \<noteq> feeder_id f" by (metis image_eqI)
  then have none: "find (\<lambda>f'. feeder_id f' = feeder_id g) fs = None"
    if "feeder_id f = feeder_id g" for g :: feeder
    using that by (simp add: find_None_iff)
  have dist: "distinct (map feeder_id fs)" using Cons.prems by simp
  show ?case
    unfolding feeders_loop_step Cons.IH[OF dist]
    by (auto simp: update_feeder_status_def stamp_status_fields none)
qed


lemma find_the_row:
  assumes "inj_on k (set xs)" and "x \<in> set xs"
  shows "find (\<lambda>y. k y = k x) xs = Some x"
  using assms
proof (induction xs)
  case Nil
  then show ?case by simp
next
  case (Cons y ys)
  show ?case
  proof (cases "k y = k x")
    case True
    then have "y = x" using inj_onD[OF Cons.prems(1), of y x] Cons.prems(2) by simp
    then show ?thesis by simp
  next
    case False
    then have "x \<in> set ys" using Cons.prems by auto
    moreover have "inj_on k (set ys)" using Cons.prems by (simp add: inj_on_def)
    ultimately show ?thesis using Cons.IH False by simp
  qed
qed

lemma active_rows_find:
  assumes "distinct (map feeder_id xs)" and "g \<in> set xs"
  shows "find (\<lambda>f. feeder_id f = feeder_id g) (sort_key feeder_id (filter is_active xs))
           = (if is_active g then Some g else None)"
proof (cases "is_active g")
  case True
  have inj: "inj_on feeder_id (set xs)" using assms(1) by (simp add: distinct_map)
  have "inj_on feeder_id (set (sort_key feeder_id (filter is_active xs)))"
    by (rule inj_on_subset[OF inj]) auto
  moreover have "g \<in> set (sort_key feeder_id (filter is_active xs))"
    using assms(2) True by simp
  ultimately show ?thesis using True by (simp add: find_the_row)
next
  case False
  have inj: "inj_on feeder_id (set xs)" using assms(1) by (simp add: distinct_map)
  have "\<forall>f \<in> set (sort_key feeder_id (filter is_active xs)). feeder_id f \<noteq> feeder_id g"
  proof
    fix f assume "f \<in> set (sort_key feeder_id (filter is_active xs))"
    then have f: "f \<in> set xs" "is_active f" by auto
    show "feeder_id f \<noteq> feeder_id g"
    proof
      assume "feeder_id f = feeder_id g"
      then have "f = g" using inj_onD[OF inj, of f g] f(1) assms(2) by simp
      then show False using f(2) False by simp
    qed
  qed
  then show ?thesis using False by (simp add: find_None_iff)
qed

lemma active_rows_distinct:
  assumes "distinct (map feeder_id xs)"
  shows "distinct (map feeder_id (sort_key feeder_id (filter is_active xs)))"
proof -
  have inj: "inj_on feeder_id (set xs)" and d: "distinct xs"
    using assms by (simp_all add: distinct_map)
  have "inj_on feeder_id (set (sort_key feeder_id (filter is_active xs)))"
    by (rule inj_on_subset[OF inj]) auto
  then show ?thesis using d by (simp add: distinct_map)
qed

lemma get_feeders_rows:
  assumes "distinct (map feeder_id (feeders d))"
  shows "snd (snd (feeders_loop n clock (sort_key feeder_id (filter is_active (feeders d))) d))
     = d\<lparr>feeders :=
           map (\<lambda>g. if is_active g \<and> probe n g \<noteq> is_online g
                     then stamp_status (probe n g) (fst (clock (feeder_id g)))
                            (snd (clock (feeder_id g))) g
                     else g)
             (feeders d)\<rparr>"
proof -
  let ?fs = "sort_key feeder_id (filter is_active (feeders d))"
  have "feeders (snd (snd (feeders_loop n clock ?fs d)))
     = map (\<lambda>g. if is_active g \<and> probe n g \<noteq> is_online g
                     then stamp_status (probe n g) (fst (clock (feeder_id g)))
                            (snd (clock (feeder_id g))) g
                     else g)
             (feeders d)"
    unfolding feeders_loop_rows[OF active_rows_distinct[OF assms]]
    by (rule map_cong[OF refl]) (simp add: active_rows_find[OF assms])
  then show ?thesis
    by (subst feeders_loop_frame) simp
qed

text \<open>
  Claim C5, as the code has it. On a store with the table \<^verbatim>\<open>feeders\<close>, whose primary key
  is \<^verbatim>\<open>feeder_id\<close>, \<^verbatim>\<open>get_feeders\<close> probes every active module, in ascending order of id
  and with the 2 second timeout, and reports each fetched row with the verdict of its
  probe. Before it answers it has written every change of state: a row whose verdict
  differs from its stored flag gets the verdict as flag and the stamp of
  \<^verbatim>\<open>update_feeder_status\<close>; every other row is left as it was. So a module that is stored
  as offline and whose probe fails is reported offline and gets no new \<^verbatim>\<open>last_offline\<close>.
\<close>

theorem get_feeders_persists_changes:
  assumes "feeders_table d" and "distinct (map feeder_id (feeders d))"
  shows "fst (get_feeders n clock d)
       = (200, Feeder_list (map (\<lambda>f. (f, probe n f))
                              (sort_key feeder_id (filter is_active (feeders d)))))
     \<and> fst (snd (get_feeders n clock d))
       = map (\<lambda>f. GET_status (esp32_ip f) (esp32_port f) 2)
           (sort_key feeder_id (filter is_active (feeders d)))
     \<and> snd (snd (get_feeders n clock d))
       = d\<lparr>feeders :=
             map (\<lambda>g. if is_active g \<and> probe n g \<noteq> is_online g
                       then stamp_status (probe n g) (fst (clock (feeder_id g)))
                              (snd (clock (feeder_id g))) g
                       else g)
               (feeders d)\<rparr>
     \<and> (\<forall>g \<in> set (feeders d). is_active g \<longrightarrow> probe n g = is_online g \<longrightarrow>
           g \<in> set (feeders (snd (snd (get_feeders n clock d)))))"
proof -
  let ?fs = "sort_key feeder_id (filter is_active (feeders d))"
  have g: "get_feeders n clock d
      = ((200, Feeder_list (fst (feeders_loop n clock ?fs d))),
         fst (snd (feeders_loop n clock ?fs d)), snd (snd (feeders_loop n clock ?fs d)))"
    using assms(1) by (simp add: get_feeders_def split_beta)
  have 1: "fst (get_feeders n clock d) = (200, Feeder_list (map (\<lambda>f. (f, probe n f)) ?fs))"
    by (simp add: g feeders_loop_reports)
  have 2: "fst (snd (get_feeders n clock d))
       = map (\<lambda>f. GET_status (esp32_ip f) (esp32_port f) 2) ?fs"
    by (simp add: g feeders_loop_calls)
  have 3: "snd (snd (get_feeders n clock d))
       = d\<lparr>feeders :=
             map (\<lambda>g. if is_active g \<and> probe n g \<noteq> is_online g
                       then stamp_status (probe n g) (fst (clock (feeder_id g)))
                              (snd (clock (feeder_id g))) g
                       else g)
               (feeders d)\<rparr>"
    by (simp add: g get_feeders_rows[OF assms(2)])
  have 4: "\<forall>g \<in> set (feeders d). is_active g \<longrightarrow> probe n g = is_online g \<longrightarrow>
           g \<in> set (feeders (snd (snd (get_feeders n clock d))))"
    unfolding 3 by force
  show ?thesis using 1 2 3 4 by blast
qed


lemma probe_samples: "probe (answers 200) f" "\<not> probe no_route f"
  by (simp_all add: probe_def check_feeder_online_def answers_def no_route_def)

lemma one_feeder_rows:
  "feeders one_feeder = [hd (feeders one_feeder)]"
  "sort_key feeder_id (filter is_active (feeders one_feeder)) = [hd (feeders one_feeder)]"
  "distinct (map feeder_id (feeders one_feeder))"
  "is_active (hd (feeders one_feeder))"
  "\<not> is_online (hd (feeders one_feeder))"
  "feeder_id (hd (feeders one_feeder)) = 1"
  "map last_offline (feeders one_feeder) = [None]"
  by (simp_all add: one_feeder_def setup_store_def new_feeder_def)

lemma get_feeders_one_feeder:
  "get_feeders n clock one_feeder
     = ((200, Feeder_list [(hd (feeders one_feeder), probe n (hd (feeders one_feeder)))]),
        [GET_status ''192.168.1.10'' 80 2],
        if probe n (hd (feeders one_feeder))
        then update_feeder_status 1 True (fst (clock 1)) (snd (clock 1)) one_feeder
        else one_feeder)"
  by (simp add: get_feeders_def one_feeder_table one_feeder_rows(2,5,6) one_feeder_row Let_def
        probe_def)

text \<open>
  The theorem at the store with Module 1, stored offline: when the device answers the
  probe with 200 the row goes online and \<^verbatim>\<open>last_online\<close> is stamped; when the probe fails
  the row stays as it was.
\<close>

theorem get_feeders_persists_changes_witness:
  "feeders_table one_feeder
   \<and> distinct (map feeder_id (feeders one_feeder))
   \<and> hd (feeders one_feeder) \<in> set (feeders one_feeder)
   \<and> is_active (hd (feeders one_feeder))
   \<and> probe no_route (hd (feeders one_feeder)) = is_online (hd (feeders one_feeder))
   \<and> fst (get_feeders (answers 200)
            (\<lambda>i. (''2024-01-01 10:01:00'', ''2024-01-01 10:01:00'')) one_feeder)
       = (200, Feeder_list [(hd (feeders one_feeder), True)])
   \<and> fst (snd (get_feeders (answers 200)
            (\<lambda>i. (''2024-01-01 10:01:00'', ''2024-01-01 10:01:00'')) one_feeder))
       = [GET_status ''192.168.1.10'' 80 2]
   \<and> snd (snd (get_feeders (answers 200)
            (\<lambda>i. (''2024-01-01 10:01:00'', ''2024-01-01 10:01:00'')) one_feeder))
       = online_feeder
   \<and> map is_online (feeders online_feeder) = [True]
   \<and> map last_online (feeders online_feeder) = [Some ''2024-01-01 10:01:00'']
   \<and> hd (feeders one_feeder) \<in> set (feeders (snd (snd (get_feeders no_route
            (\<lambda>i. (''2024-01-01 10:01:00'', ''2024-01-01 10:01:00'')) one_feeder))))"
proof -
  let ?clock = "\<lambda>i::int. (''2024-01-01 10:01:00'', ''2024-01-01 10:01:00'')"
  note T = get_feeders_persists_changes[OF one_feeder_table one_feeder_rows(3),
      where clock = ?clock]
  have m: "hd (feeders one_feeder) \<in> set (feeders one_feeder)"
    by (subst (2) one_feeder_rows(1)) simp
  have p: "probe no_route (hd (feeders one_feeder)) = is_online (hd (feeders one_feeder))"
    by (simp add: probe_samples one_feeder_rows(5))
  have 1: "fst (get_feeders (answers 200) ?clock one_feeder)
       = (200, Feeder_list [(hd (feeders one_feeder), True)])"
    using T[of "answers 200", THEN conjunct1]
    by (simp add: one_feeder_rows(2) probe_samples)
  have 2: "fst (snd (get_feeders (answers 200) ?clock one_feeder))
       = [GET_status ''192.168.1.10'' 80 2]"
    using T[of "answers 200", THEN conjunct2, THEN conjunct1]
    by (simp add: one_feeder_rows(2) one_feeder_row)
  have "snd (snd (get_feeders (answers 200) ?clock one_feeder))
       = one_feeder\<lparr>feeders :=
             map (\<lambda>g. if is_active g \<and> probe (answers 200) g \<noteq> is_online g
                       then stamp_status (probe (answers 200) g) (fst (?clock (feeder_id g)))
                              (snd (?clock (feeder_id g))) g
                       else g)
               (feeders one_feeder)\<rparr>"
    using T[of "answers 200", THEN conjunct2, THEN conjunct2, THEN conjunct1] .
  also have "map (\<lambda>g. if is_active g \<and> probe (answers 200) g \<noteq> is_online g
                       then stamp_status (probe (answers 200) g) (fst (?clock (feeder_id g)))
                              (snd (?clock (feeder_id g))) g
                       else g)
               (feeders one_feeder) = feeders online_feeder"
    by (simp add: online_feeder_def update_feeder_status_def probe_samples one_feeder_def
          setup_store_def new_feeder_def)
  also have "one_feeder\<lparr>feeders := feeders online_feeder\<rparr> = online_feeder"
    by (simp add: online_feeder_def update_feeder_status_def)
  finally have 3: "snd (snd (get_feeders (answers 200) ?clock one_feeder)) = online_feeder" .
  have 4: "hd (feeders one_feeder) \<in> set (feeders (snd (snd (get_feeders no_route ?clock
             one_feeder))))"
    using T[of no_route, THEN conjunct2, THEN conjunct2, THEN conjunct2, rule_format,
        OF m one_feeder_rows(4) p] .
  have o: "map is_online (feeders online_feeder) = [True]"
    "map last_online (feeders online_feeder) = [Some ''2024-01-01 10:01:00'']"
    by (simp_all add: online_feeder_def update_feeder_status_def stamp_status_def one_feeder_def
        setup_store_def new_feeder_def)
  show ?thesis
    using one_feeder_table one_feeder_rows(3,4) m p 1 2 3 4 o by blast
qed

text \<open>
  Claim C5 as the specification states it asks for a fresh last-offline stamp in the
  scenario "register feeder (Module 1, 192.168.1.10:80), probe fails". \<^verbatim>\<open>add_feeder\<close>
  stores the module as offline, so the failed probe is no change of state:
  \<^verbatim>\<open>get_feeders\<close> reports the module offline and writes nothing, and \<^verbatim>\<open>last_offline\<close> stays
  unset.
\<close>

theorem get_feeders_no_fresh_stamp:
  "add_feeder module_1 ''2024-01-01 10:00:00'' ''2024-01-01 02:00:00'' setup_store
     = ((200, Feeder_added 1), one_feeder)
   \<and> get_feeders no_route (\<lambda>i. (''2024-01-01 10:01:00'', ''2024-01-01 10:01:00'')) one_feeder
     = ((200, Feeder_list [(hd (feeders one_feeder), False)]),
        [GET_status ''192.168.1.10'' 80 2], one_feeder)
   \<and> map last_offline (feeders one_feeder) = [None]"
  by (simp add: add_module_1 get_feeders_one_feeder probe_samples one_feeder_rows(7))

text \<open>The store \<open>online_feeder\<close> is the one a listing leaves when Module 1 answers the probe.\<close>

lemma online_feeder_listed:
  "snd (snd (get_feeders (answers 200)
       (\<lambda>i. (''2024-01-01 10:01:00'', ''2024-01-01 10:01:00'')) one_feeder)) = online_feeder"
  by (simp add: get_feeders_one_feeder probe_samples online_feeder_def)

lemma reachable_online_feeder: "reachable online_feeder"
  using reachable.get_feeders[OF reachable_one_feeder, of "answers 200"
      "\<lambda>i. (''2024-01-01 10:01:00'', ''2024-01-01 10:01:00'')"]
  by (simp add: online_feeder_listed)

end
